theory Spec2Isabelle
  imports Complex_Main
begin

section \<open>Numbers, exceptions and method calls\<close>

text \<open>
  The simulator consists of three Python classes: \<^verbatim>\<open>PhysicsModel\<close> (physics_model.py),
  \<^verbatim>\<open>VibrationGenerator\<close> (generator.py) and \<^verbatim>\<open>EnergyStorage\<close> (energy_storage.py).

  Python's floats are modelled by the type \<^typ>\<open>real\<close>: the development is about the
  arithmetic the code writes down, not about IEEE rounding, infinities or NaN.
  Division follows Python's float division, which raises \<^verbatim>\<open>ZeroDivisionError\<close> when the
  divisor is zero; division by a literal such as \<^verbatim>\<open>100.0\<close> cannot raise. A
  \<^verbatim>\<open>numpy.float64\<close> divided by zero raises nothing and gives an infinity or NaN; the
  one place where the driver can bring such a value to a division by a field,
  \<^verbatim>\<open>calculate_power\<close>, has a definition of its own for that case.

  A method mutates its object and then either returns a value or raises. An exception
  does not undo the assignments made before it, so both results carry the object as the
  call leaves it.
\<close>

datatype py_error = ZeroDivisionError

datatype ('a, 's) outcome = Returns 'a 's | Raises py_error 's

fun self_after :: "('a, 's) outcome \<Rightarrow> 's" where
  "self_after (Returns a s) = s"
| "self_after (Raises e s) = s"

fun returned :: "('a, 's) outcome \<Rightarrow> 'a option" where
  "returned (Returns a s) = Some a"
| "returned (Raises e s) = None"

fun raised :: "('a, 's) outcome \<Rightarrow> py_error option" where
  "raised (Returns a s) = None"
| "raised (Raises e s) = Some e"

section \<open>energy\_storage.py\<close>

record EnergyStorage =
  capacity :: real
  stored_energy :: real
  state_of_charge :: real
  discharge_rate :: real

text \<open>\<^verbatim>\<open>__init__(self, capacity_joules=50000.0, discharge_rate_watts=5.0)\<close>\<close>

definition EnergyStorage_init :: "real \<Rightarrow> real \<Rightarrow> EnergyStorage" where
  "EnergyStorage_init capacity_joules discharge_rate_watts =
     \<lparr>capacity = capacity_joules, stored_energy = 0, state_of_charge = 0,
      discharge_rate = discharge_rate_watts\<rparr>"

text \<open>
  \<^verbatim>\<open>self.state_of_charge = (self.stored_energy / self.capacity) * 100.0\<close>. When the
  capacity is 0, the stored energy that \<^verbatim>\<open>update\<close> leaves is the capacity itself or the
  \<^verbatim>\<open>0\<close> of \<^verbatim>\<open>max(0, .)\<close>, a Python number in both cases, so the division raises
  whatever the type of the energy that was added.
\<close>

definition update_state_of_charge :: "EnergyStorage \<Rightarrow> (unit, EnergyStorage) outcome" where
  "update_state_of_charge es =
     (if capacity es = 0 then Raises ZeroDivisionError es
      else Returns () (es\<lparr>state_of_charge := stored_energy es / capacity es * 100\<rparr>))"

text \<open>
  \<^verbatim>\<open>update(self, dt, joules_to_add)\<close>: discharge, charge, \<^verbatim>\<open>max(0, .)\<close>,
  \<^verbatim>\<open>min(., capacity)\<close>, then the state of charge.
\<close>

definition EnergyStorage_update ::
  "EnergyStorage \<Rightarrow> real \<Rightarrow> real \<Rightarrow> (unit, EnergyStorage) outcome" where
  "EnergyStorage_update es dt joules_to_add =
     (let joules_to_discharge = discharge_rate es * dt;
          es1 = es\<lparr>stored_energy := stored_energy es - joules_to_discharge\<rparr>;
          es2 = es1\<lparr>stored_energy := stored_energy es1 + joules_to_add\<rparr>;
          es3 = es2\<lparr>stored_energy := max 0 (stored_energy es2)\<rparr>;
          es4 = es3\<lparr>stored_energy := min (stored_energy es3) (capacity es3)\<rparr>
      in update_state_of_charge es4)"

text \<open>
  A sequence of \<^verbatim>\<open>update\<close> calls on one store, as the driver's loop makes them: an
  exception ends the sequence.
\<close>

fun EnergyStorage_updates ::
  "EnergyStorage \<Rightarrow> (real \<times> real) list \<Rightarrow> (unit, EnergyStorage) outcome" where
  "EnergyStorage_updates es [] = Returns () es"
| "EnergyStorage_updates es ((dt, joules_to_add) # rest) =
     (case EnergyStorage_update es dt joules_to_add of
        Raises e es' \<Rightarrow> Raises e es'
      | Returns u es' \<Rightarrow> EnergyStorage_updates es' rest)"

text \<open>The specification's \<open>clamp(x, lo, hi)\<close>, written from its words.\<close>

definition spec_clamp :: "real \<Rightarrow> real \<Rightarrow> real \<Rightarrow> real" where
  "spec_clamp x lo hi = (if x < lo then lo else if hi < x then hi else x)"

section \<open>generator.py\<close>

record VibrationGenerator =
  piezo_const :: real
  resistance :: real
  max_voltage :: real
  power_output :: real
  efficiency :: real

text \<open>
  \<^verbatim>\<open>__init__(self, piezo_const=15.0, resistance=100.0, max_voltage=100.0, efficiency=0.4)\<close>
\<close>

definition VibrationGenerator_init :: "real \<Rightarrow> real \<Rightarrow> real \<Rightarrow> real \<Rightarrow> VibrationGenerator" where
  "VibrationGenerator_init piezo_const0 resistance0 max_voltage0 efficiency0 =
     \<lparr>piezo_const = piezo_const0, resistance = resistance0, max_voltage = max_voltage0,
      power_output = 0, efficiency = efficiency0\<rparr>"

text \<open>
  \<^verbatim>\<open>calculate_power(self, displacement, velocity)\<close>, called with Python floats. The
  division by \<^verbatim>\<open>self.resistance\<close> raises before \<^verbatim>\<open>self.power_output\<close> is assigned.
\<close>

definition calculate_power ::
  "VibrationGenerator \<Rightarrow> real \<Rightarrow> real \<Rightarrow> (real, VibrationGenerator) outcome" where
  "calculate_power g displacement0 velocity0 =
     (let voltage = min (piezo_const g * \<bar>velocity0\<bar>) (max_voltage g)
      in if resistance g = 0 then Raises ZeroDivisionError g
         else (let power_unlimited = voltage ^ 2 / resistance g;
                   g' = g\<lparr>power_output := min power_unlimited 10 * efficiency g\<rparr>
               in Returns (power_output g') g'))"

text \<open>
  \<^verbatim>\<open>calculate_power(self, displacement, velocity)\<close>, called with a velocity that is a
  \<^verbatim>\<open>numpy.float64\<close>, as the driver does once \<^verbatim>\<open>PhysicsModel.update\<close> has unpacked the
  integrator's array; the fields are Python floats. The product
  \<^verbatim>\<open>self.piezo_const * abs(velocity)\<close> is then a \<^verbatim>\<open>numpy.float64\<close>, and \<^verbatim>\<open>min\<close> returns
  it unless \<^verbatim>\<open>self.max_voltage\<close> is smaller, in which case the voltage is the Python
  float \<^verbatim>\<open>self.max_voltage\<close>. With a resistance of \<^verbatim>\<open>0.0\<close> the division raises for the
  Python float only; for the \<^verbatim>\<open>numpy.float64\<close> it gives \<^verbatim>\<open>inf\<close>, of which
  \<^verbatim>\<open>min(inf, 10)\<close> is 10, or, when the squared voltage is 0, NaN, which \<^verbatim>\<open>min\<close>
  returns and which is then stored and returned. NaN is not a real number: that result
  is \<open>Nan_stored\<close>, and every other one is \<open>Within\<close> the model.
\<close>

datatype float64_outcome = Within "(real, VibrationGenerator) outcome" | Nan_stored

definition calculate_power_float64 ::
  "VibrationGenerator \<Rightarrow> real \<Rightarrow> real \<Rightarrow> float64_outcome" where
  "calculate_power_float64 g displacement0 velocity0 =
     (let x = piezo_const g * \<bar>velocity0\<bar>;
          clipped = max_voltage g < x;
          voltage = (if clipped then max_voltage g else x)
      in if resistance g = 0 then
           (if clipped then Within (Raises ZeroDivisionError g)
            else if voltage ^ 2 = 0 then Nan_stored
            else (let g' = g\<lparr>power_output := 10 * efficiency g\<rparr>
                  in Within (Returns (power_output g') g')))
         else (let power_unlimited = voltage ^ 2 / resistance g;
                   g' = g\<lparr>power_output := min power_unlimited 10 * efficiency g\<rparr>
               in Within (Returns (power_output g') g')))"

text \<open>\<^verbatim>\<open>calculate_energy_this_cycle(self, dt)\<close>: \<^verbatim>\<open>return self.power_output * dt\<close>\<close>

definition calculate_energy_this_cycle ::
  "VibrationGenerator \<Rightarrow> real \<Rightarrow> (real, VibrationGenerator) outcome" where
  "calculate_energy_this_cycle g dt = Returns (power_output g * dt) g"

text \<open>The specification's formula for the output power, written from its words.\<close>

definition spec_power :: "real \<Rightarrow> real \<Rightarrow> real \<Rightarrow> real \<Rightarrow> real \<Rightarrow> real" where
  "spec_power piezoConstant loadResistance maxVoltage efficiency0 velocity0 =
     min ((min (piezoConstant * \<bar>velocity0\<bar>) maxVoltage)\<^sup>2 / loadResistance) 10 * efficiency0"

section \<open>physics\_model.py\<close>

text \<open>
  \<^verbatim>\<open>collections.deque(maxlen=n)\<close>: appending to a full deque discards the item at the
  left end.
\<close>

record 'a deque =
  maxlen :: nat
  items :: "'a list"

definition deque_init :: "nat \<Rightarrow> 'a deque" where
  "deque_init n = \<lparr>maxlen = n, items = []\<rparr>"

definition deque_append :: "'a deque \<Rightarrow> 'a \<Rightarrow> 'a deque" where
  "deque_append dq x =
     (if length (items dq) < maxlen dq then dq\<lparr>items := items dq @ [x]\<rparr>
      else dq\<lparr>items := tl (items dq @ [x])\<rparr>)"

record PhysicsModel =
  m :: real
  c1 :: real
  c2 :: real
  max_c_elec :: real
  c_elec :: real
  k :: real
  A :: real
  state :: "real \<times> real"
  time :: real
  wind_speed :: real
  displacement :: real
  velocity :: real
  max_displacement :: real
  failed :: bool
  damping_ratio :: real
  resonant_frequency :: real
  power_history :: "real deque"
  avg_power_window :: "real deque"
  average_power :: real

text \<open>
  \<^verbatim>\<open>odeint(self._vibration_equation, self.state, [0, dt])[-1]\<close>: scipy's integrator and the
  random source that \<^verbatim>\<open>_vibration_equation\<close> draws its noise from are outside the
  repository. Every call of \<^verbatim>\<open>update\<close> therefore takes the integrator as an argument: a
  function from the model (whose fields the derivative reads), the state vector and
  \<open>dt\<close> to the end point. Nothing is assumed about it, so every property below
  holds whatever the integration yields. The derivative \<^verbatim>\<open>_vibration_equation\<close> is
  evaluated only inside the integrator and is not modelled.
\<close>

type_synonym integrator = "PhysicsModel \<Rightarrow> real \<times> real \<Rightarrow> real \<Rightarrow> real \<times> real"

text \<open>\<^verbatim>\<open>_calculate_damping_ratio\<close>\<close>

definition calculate_damping_ratio :: "PhysicsModel \<Rightarrow> real" where
  "calculate_damping_ratio pm =
     (if k pm > 0 \<and> m pm > 0 then c1 pm / (2 * sqrt (k pm * m pm)) else 0)"

text \<open>
  \<^verbatim>\<open>_calculate_resonant_frequency\<close>. (For a damping ratio below \<open>-1\<close> numpy's square
  root of a negative number is NaN, which the reals do not have; no property below
  depends on the value computed in that case.)
\<close>

definition calculate_resonant_frequency :: "PhysicsModel \<Rightarrow> real" where
  "calculate_resonant_frequency pm =
     (let zeta = calculate_damping_ratio pm
      in if zeta \<ge> 1 then 0
         else if m pm > 0 \<and> k pm > 0 then
           (let omega_n = sqrt (k pm / m pm);
                omega_d = omega_n * sqrt (1 - zeta\<^sup>2)
            in omega_d / (2 * pi))
         else 0)"

text \<open>
  \<^verbatim>\<open>__init__(self, mass=10.0, damping=10.0, stiffness=100000.0, area=0.5, max_elec_damping=5.0)\<close>.
  The two derived fields are assigned by the calls at the end of the constructor; the
  values they hold before that are never read.
\<close>

definition PhysicsModel_init :: "real \<Rightarrow> real \<Rightarrow> real \<Rightarrow> real \<Rightarrow> real \<Rightarrow> PhysicsModel" where
  "PhysicsModel_init mass damping stiffness area max_elec_damping =
     (let pm0 = \<lparr>m = mass, c1 = damping, c2 = 1 / 2, max_c_elec = max_elec_damping,
                 c_elec = 0, k = stiffness, A = area, state = (0, 0), time = 0,
                 wind_speed = 0, displacement = 0, velocity = 0,
                 max_displacement = 1 / 100, failed = False,
                 damping_ratio = 0, resonant_frequency = 0,
                 power_history = deque_init 200, avg_power_window = deque_init (60 * 5),
                 average_power = 0\<rparr>;
          pm1 = pm0\<lparr>damping_ratio := calculate_damping_ratio pm0\<rparr>
      in pm1\<lparr>resonant_frequency := calculate_resonant_frequency pm1\<rparr>)"

text \<open>
  \<^verbatim>\<open>update(self, wind_speed, dt, energy_storage=None)\<close>. A failed model returns at once,
  before the clock is advanced. An \<^verbatim>\<open>EnergyStorage\<close> object is always truthy, so
  \<^verbatim>\<open>if energy_storage:\<close> tests for \<^verbatim>\<open>None\<close>.
\<close>

definition PhysicsModel_update ::
  "PhysicsModel \<Rightarrow> real \<Rightarrow> real \<Rightarrow> EnergyStorage option \<Rightarrow> integrator \<Rightarrow> PhysicsModel" where
  "PhysicsModel_update pm wind dt energy_storage odeint =
     (if failed pm then pm\<lparr>wind_speed := 0, displacement := 0, velocity := 0\<rparr>
      else
        (let pm1 = pm\<lparr>wind_speed := wind\<rparr>;
             pm2 = (case energy_storage of
                      None \<Rightarrow> pm1
                    | Some es \<Rightarrow>
                        (let charge_level = state_of_charge es;
                             min_c_elec = 1 / 2
                         in pm1\<lparr>c_elec := max_c_elec pm1 * (1 - charge_level / 100) + min_c_elec\<rparr>));
             pm3 = pm2\<lparr>damping_ratio := calculate_damping_ratio pm2\<rparr>;
             pm4 = pm3\<lparr>resonant_frequency := calculate_resonant_frequency pm3\<rparr>;
             pm5 = (if wind_speed pm4 > 0 then pm4\<lparr>state := odeint pm4 (state pm4) dt\<rparr>
                    else pm4\<lparr>state := (0, 0)\<rparr>);
             pm6 = pm5\<lparr>time := time pm5 + dt\<rparr>;
             pm7 = pm6\<lparr>displacement := fst (state pm6), velocity := snd (state pm6)\<rparr>
         in if \<bar>displacement pm7\<bar> > max_displacement pm7 then pm7\<lparr>failed := True\<rparr> else pm7))"

text \<open>\<^verbatim>\<open>update_power_metrics(self, current_power)\<close>\<close>

definition update_power_metrics :: "PhysicsModel \<Rightarrow> real \<Rightarrow> PhysicsModel" where
  "update_power_metrics pm current_power =
     (let pm1 = pm\<lparr>power_history := deque_append (power_history pm) (current_power * 1000)\<rparr>;
          pm2 = pm1\<lparr>avg_power_window := deque_append (avg_power_window pm1) (current_power * 1000)\<rparr>;
          window = items (avg_power_window pm2)
      in pm2\<lparr>average_power :=
               (if length window > 0 then sum_list window / real (length window) else 0)\<rparr>)"

text \<open>
  One call of \<^verbatim>\<open>update\<close> with its arguments, and a sequence of such calls on one model.
\<close>

type_synonym update_call = "real \<times> real \<times> EnergyStorage option \<times> integrator"

fun PhysicsModel_update_call :: "PhysicsModel \<Rightarrow> update_call \<Rightarrow> PhysicsModel" where
  "PhysicsModel_update_call pm (wind, dt, energy_storage, odeint) =
     PhysicsModel_update pm wind dt energy_storage odeint"

definition PhysicsModel_updates :: "PhysicsModel \<Rightarrow> update_call list \<Rightarrow> PhysicsModel" where
  "PhysicsModel_updates pm calls = foldl PhysicsModel_update_call pm calls"

text \<open>
  The states a model can be in: those the constructor builds and those its two methods
  produce from them.
\<close>

inductive reachable :: "PhysicsModel \<Rightarrow> bool" where
  reachable_init: "reachable (PhysicsModel_init mass damping stiffness area max_elec_damping)"
| reachable_update: "reachable pm \<Longrightarrow> reachable (PhysicsModel_update pm wind dt energy_storage odeint)"
| reachable_metrics: "reachable pm \<Longrightarrow> reachable (update_power_metrics pm current_power)"

text \<open>
  An integrator that ignores its arguments and ends at a given point: a stand-in for
  one particular run of the real integrator, used in the concrete examples below.
\<close>

definition constant_integrator :: "real \<times> real \<Rightarrow> integrator" where
  "constant_integrator end_point pm s dt = end_point"



section \<open>Properties of the energy store\<close>

lemma EnergyStorage_update_stored:
  "stored_energy (self_after (EnergyStorage_update es dt j)) =
     min (max 0 (stored_energy es - discharge_rate es * dt + j)) (capacity es)"
  by (simp add: EnergyStorage_update_def update_state_of_charge_def Let_def)

lemma EnergyStorage_update_capacity:
  "capacity (self_after (EnergyStorage_update es dt j)) = capacity es"
  by (simp add: EnergyStorage_update_def update_state_of_charge_def Let_def)

lemma EnergyStorage_update_raised:
  "raised (EnergyStorage_update es dt j) =
     (if capacity es = 0 then Some ZeroDivisionError else None)"
  by (simp add: EnergyStorage_update_def update_state_of_charge_def Let_def)

lemma EnergyStorage_update_soc:
  "capacity es \<noteq> 0 \<Longrightarrow>
   state_of_charge (self_after (EnergyStorage_update es dt j)) =
     stored_energy (self_after (EnergyStorage_update es dt j)) / capacity es * 100"
  by (simp add: EnergyStorage_update_def update_state_of_charge_def Let_def)

text \<open>
  C2. One call of \<^verbatim>\<open>EnergyStorage.update(dt, joulesToAdd)\<close> on a store with
  \<open>capacity \<ge> 0\<close> leaves \<open>storedEnergy = clamp(storedEnergy_old - dischargeRate * dt +
  joulesToAdd, 0, capacity)\<close>: floor and ceiling are applied to the sum, after both the
  discharge and the charge. The specification's scenario (capacity 50000, discharge rate
  5, empty store, \<open>update(1.0, 0)\<close>) leaves the store empty with state of charge 0.
\<close>

theorem C2_update_clamps_after_sum:
  "(0 \<le> capacity es \<longrightarrow>
      stored_energy (self_after (EnergyStorage_update es dt j)) =
        spec_clamp (stored_energy es - discharge_rate es * dt + j) 0 (capacity es))
   \<and> EnergyStorage_update (EnergyStorage_init 50000 5) 1 0 =
        Returns () (EnergyStorage_init 50000 5)"
  by (simp add: EnergyStorage_update_def update_state_of_charge_def Let_def spec_clamp_def
      EnergyStorage_init_def)

text \<open>
  At an empty store with discharge 5 per second, one second and 8 joules added give 3
  joules, not 8: the negative intermediate value \<open>-5\<close> is not floored before the
  charge is added.
\<close>

theorem C2_update_clamps_after_sum_witness:
  "0 \<le> capacity (EnergyStorage_init 50000 5)
   \<and> stored_energy (self_after (EnergyStorage_update (EnergyStorage_init 50000 5) 1 8)) = 3
   \<and> stored_energy (self_after (EnergyStorage_update (EnergyStorage_init 50000 5) 1 0)) = 0"
  using C2_update_clamps_after_sum [of "EnergyStorage_init 50000 5" 1 8]
    C2_update_clamps_after_sum [of "EnergyStorage_init 50000 5" 1 0]
  by (simp add: EnergyStorage_init_def spec_clamp_def)

text \<open>
  The invariant of the store: with a positive capacity no call raises, and the stored
  energy and the state of charge stay in their ranges.
\<close>

lemma EnergyStorage_updates_invariant:
  "0 < capacity es \<Longrightarrow>
   raised (EnergyStorage_updates es steps) = None
   \<and> capacity (self_after (EnergyStorage_updates es steps)) = capacity es
   \<and> (steps \<noteq> [] \<longrightarrow>
        0 \<le> stored_energy (self_after (EnergyStorage_updates es steps))
        \<and> stored_energy (self_after (EnergyStorage_updates es steps)) \<le> capacity es
        \<and> 0 \<le> state_of_charge (self_after (EnergyStorage_updates es steps))
        \<and> state_of_charge (self_after (EnergyStorage_updates es steps)) \<le> 100)"
proof (induction steps arbitrary: es)
  case Nil
  then show ?case by simp
next
  case (Cons step steps)
  obtain dt j where step: "step = (dt, j)" by (cases step)
  let ?o = "EnergyStorage_update es dt j"
  have "raised ?o = None"
    using Cons.prems by (simp add: EnergyStorage_update_raised)
  then obtain u es' where o: "?o = Returns u es'" by (cases ?o) simp_all
  have cap: "capacity es' = capacity es"
    using EnergyStorage_update_capacity [of es dt j] o by simp
  have st: "stored_energy es' =
      min (max 0 (stored_energy es - discharge_rate es * dt + j)) (capacity es)"
    using EnergyStorage_update_stored [of es dt j] o by simp
  have soc: "state_of_charge es' = stored_energy es' / capacity es * 100"
    using EnergyStorage_update_soc [of es dt j] o Cons.prems by simp
  have b: "0 \<le> stored_energy es'" "stored_energy es' \<le> capacity es"
    using st Cons.prems by simp_all
  have s1: "0 \<le> state_of_charge es'"
    using soc b Cons.prems by simp
  have s2: "state_of_charge es' \<le> 100"
    using soc b Cons.prems by (simp add: pos_divide_le_eq)
  have "0 < capacity es'" using cap Cons.prems by simp
  from Cons.IH [OF this] show ?case
    using b s1 s2 by (cases "steps = []") (simp_all add: step o cap)
qed

text \<open>
  C6. For every store constructed with \<open>capacity > 0\<close> and \<open>dischargeRate \<ge> 0\<close>, after
  every finite sequence of \<^verbatim>\<open>update\<close> calls with \<open>dt \<ge> 0\<close> and \<open>joulesToAdd \<ge> 0\<close>
  (none of which raises), \<open>storedEnergy\<close> lies in \<open>[0, capacity]\<close> and \<open>stateOfCharge\<close>
  lies in \<open>[0, 100]\<close>.
\<close>

theorem C6_store_stays_in_range:
  assumes "0 < capacity_joules" and "0 \<le> discharge_rate_watts"
    and "list_all (\<lambda>(dt, j). 0 \<le> dt \<and> 0 \<le> j) steps"
  shows "raised (EnergyStorage_updates
            (EnergyStorage_init capacity_joules discharge_rate_watts) steps) = None
   \<and> 0 \<le> stored_energy (self_after (EnergyStorage_updates
            (EnergyStorage_init capacity_joules discharge_rate_watts) steps))
   \<and> stored_energy (self_after (EnergyStorage_updates
            (EnergyStorage_init capacity_joules discharge_rate_watts) steps)) \<le> capacity_joules
   \<and> 0 \<le> state_of_charge (self_after (EnergyStorage_updates
            (EnergyStorage_init capacity_joules discharge_rate_watts) steps))
   \<and> state_of_charge (self_after (EnergyStorage_updates
            (EnergyStorage_init capacity_joules discharge_rate_watts) steps)) \<le> 100"
proof (cases "steps = []")
  case True
  then show ?thesis using assms(1) by (simp add: EnergyStorage_init_def)
next
  case False
  then show ?thesis
    using assms(1)
      EnergyStorage_updates_invariant [of "EnergyStorage_init capacity_joules discharge_rate_watts" steps]
    by (simp add: EnergyStorage_init_def)
qed

text \<open>
  Three calls on the default store: the last one overfills it, and it ends full, at
  50000 joules and 100 percent.
\<close>

theorem C6_store_stays_in_range_witness:
  "0 < (50000 :: real) \<and> 0 \<le> (5 :: real)
   \<and> list_all (\<lambda>(dt, j). 0 \<le> dt \<and> 0 \<le> j) [(1, 0), (1, 30005), (2 :: real, 60000 :: real)]
   \<and> raised (EnergyStorage_updates (EnergyStorage_init 50000 5)
        [(1, 0), (1, 30005), (2, 60000)]) = None
   \<and> stored_energy (self_after (EnergyStorage_updates (EnergyStorage_init 50000 5)
        [(1, 0), (1, 30005), (2, 60000)])) = 50000
   \<and> state_of_charge (self_after (EnergyStorage_updates (EnergyStorage_init 50000 5)
        [(1, 0), (1, 30005), (2, 60000)])) = 100"
  using C6_store_stays_in_range [of 50000 5 "[(1, 0), (1, 30005), (2, 60000)]"]
  by (simp add: EnergyStorage_init_def EnergyStorage_update_def update_state_of_charge_def Let_def)

section \<open>Properties of the generator\<close>

lemma sq_min_mono:
  fixes pc mv a b :: real
  assumes "0 \<le> a" and "a \<le> b"
  shows "(min (pc * a) mv)\<^sup>2 \<le> (min (pc * b) mv)\<^sup>2"
proof (cases "0 \<le> pc")
  case True
  then have le: "pc * a \<le> pc * b" using assms by (simp add: mult_left_mono)
  show ?thesis
  proof (cases "0 \<le> mv")
    case True
    have "0 \<le> pc * a" using \<open>0 \<le> pc\<close> assms by simp
    then have "0 \<le> min (pc * a) mv" using True by simp
    moreover have "min (pc * a) mv \<le> min (pc * b) mv" using le by simp
    ultimately show ?thesis by (rule power_mono [rotated])
  next
    case False
    have "0 \<le> pc * a" "0 \<le> pc * b" using \<open>0 \<le> pc\<close> assms by simp_all
    then have "min (pc * a) mv = mv" "min (pc * b) mv = mv" using False by simp_all
    then show ?thesis by simp
  qed
next
  case False
  then have le: "pc * b \<le> pc * a" using assms by (simp add: mult_left_mono_neg)
  have "pc * a \<le> 0" using False assms by (simp add: mult_nonpos_nonneg)
  then have "min (pc * a) mv \<le> 0" by simp
  moreover have "min (pc * b) mv \<le> min (pc * a) mv" using le by simp
  ultimately have "(- min (pc * a) mv)\<^sup>2 \<le> (- min (pc * b) mv)\<^sup>2"
    by (intro power_mono) simp_all
  then show ?thesis by simp
qed

lemma spec_power_mono:
  assumes "0 < r" and "0 \<le> eff" and "\<bar>v\<bar> \<le> \<bar>v'\<bar>"
  shows "spec_power pc r mv eff v \<le> spec_power pc r mv eff v'"
proof -
  have "(min (pc * \<bar>v\<bar>) mv)\<^sup>2 \<le> (min (pc * \<bar>v'\<bar>) mv)\<^sup>2"
    using assms(3) by (intro sq_min_mono) simp_all
  then have "(min (pc * \<bar>v\<bar>) mv)\<^sup>2 / r \<le> (min (pc * \<bar>v'\<bar>) mv)\<^sup>2 / r"
    using assms(1) by (simp add: divide_right_mono)
  then have "min ((min (pc * \<bar>v\<bar>) mv)\<^sup>2 / r) 10 \<le> min ((min (pc * \<bar>v'\<bar>) mv)\<^sup>2 / r) 10"
    by simp
  then show ?thesis
    unfolding spec_power_def using assms(2) by (rule mult_right_mono)
qed

lemma spec_power_bounds:
  assumes "0 < r" and "0 \<le> eff"
  shows "0 \<le> spec_power pc r mv eff v" and "spec_power pc r mv eff v \<le> 10 * eff"
proof -
  have "0 \<le> (min (pc * \<bar>v\<bar>) mv)\<^sup>2 / r" using assms(1) by simp
  then have "0 \<le> min ((min (pc * \<bar>v\<bar>) mv)\<^sup>2 / r) 10" by simp
  then show "0 \<le> spec_power pc r mv eff v"
    unfolding spec_power_def using assms(2) by simp
  have "min ((min (pc * \<bar>v\<bar>) mv)\<^sup>2 / r) 10 \<le> 10" by simp
  then show "spec_power pc r mv eff v \<le> 10 * eff"
    unfolding spec_power_def using assms(2) by (rule mult_right_mono)
qed

lemma calculate_power_returns:
  "resistance g \<noteq> 0 \<Longrightarrow>
   calculate_power g d v =
     Returns (spec_power (piezo_const g) (resistance g) (max_voltage g) (efficiency g) v)
       (g\<lparr>power_output :=
            spec_power (piezo_const g) (resistance g) (max_voltage g) (efficiency g) v\<rparr>)"
  by (simp add: calculate_power_def spec_power_def Let_def)

lemma calculate_power_displacement:
  "calculate_power g d v = calculate_power g d' v"
  by (simp add: calculate_power_def)

lemma calculate_power_raised:
  "raised (calculate_power g d v) =
     (if resistance g = 0 then Some ZeroDivisionError else None)"
  by (simp add: calculate_power_def Let_def)

text \<open>
  C3, as stated, fails: \<open>loadResistance \<noteq> 0\<close> admits a negative resistance, and there
  the power is negative. With \<open>piezoConstant = 15\<close>, \<open>loadResistance = -100\<close>,
  \<open>maxVoltage = 100\<close>, \<open>efficiency = 0.4\<close> and \<open>velocity = 1\<close> the voltage is 15, the
  unlimited power \<open>225 / -100\<close>, and the result \<open>-0.9\<close> W.
\<close>

theorem C3_negative_resistance_counterexample:
  "resistance (VibrationGenerator_init 15 (- 100) 100 (4 / 10)) \<noteq> 0
   \<and> returned (calculate_power (VibrationGenerator_init 15 (- 100) 100 (4 / 10)) 0 1)
       = Some (- (9 / 10))
   \<and> \<not> (0 :: real) \<le> - (9 / 10)"
  by (simp add: calculate_power_def VibrationGenerator_init_def Let_def power2_eq_square)

text \<open>
  C3, amended. For every generator with \<open>loadResistance \<noteq> 0\<close> and every displacement
  and velocity, \<^verbatim>\<open>calculatePower\<close> returns, and stores as \<open>powerOutput\<close>, exactly
  \<open>min((min(piezoConstant * |velocity|, maxVoltage))^2 / loadResistance, 10) * efficiency\<close>;
  the call does not depend on the displacement. When moreover \<open>loadResistance > 0\<close> and
  \<open>efficiency \<ge> 0\<close>, the power is never negative, never exceeds \<open>10 * efficiency\<close>, and
  is monotonically non-decreasing in \<open>|velocity|\<close>. With \<open>piezoConstant = 25\<close>,
  \<open>loadResistance = 10000\<close>, \<open>maxVoltage = 100\<close>, \<open>efficiency = 0.4\<close> and
  \<open>velocity = 2\<close> it returns 0.1 W.
\<close>

theorem C3_calculate_power:
  "(resistance g \<noteq> 0 \<longrightarrow>
      calculate_power g d v =
        Returns (spec_power (piezo_const g) (resistance g) (max_voltage g) (efficiency g) v)
          (g\<lparr>power_output :=
               spec_power (piezo_const g) (resistance g) (max_voltage g) (efficiency g) v\<rparr>))
   \<and> calculate_power g d v = calculate_power g d' v
   \<and> (0 < resistance g \<and> 0 \<le> efficiency g \<longrightarrow>
        (\<exists>p p'. returned (calculate_power g d v) = Some p
            \<and> returned (calculate_power g d' v') = Some p'
            \<and> 0 \<le> p \<and> p \<le> 10 * efficiency g
            \<and> (\<bar>v\<bar> \<le> \<bar>v'\<bar> \<longrightarrow> p \<le> p')))
   \<and> returned (calculate_power (VibrationGenerator_init 25 10000 100 (4 / 10)) d 2)
       = Some (1 / 10)"
proof -
  have "returned (calculate_power (VibrationGenerator_init 25 10000 100 (4 / 10)) d 2)
      = Some (1 / 10)"
    by (simp add: calculate_power_def VibrationGenerator_init_def Let_def power2_eq_square)
  then show ?thesis
    by (simp add: calculate_power_returns calculate_power_displacement [of g d v d']
        spec_power_bounds spec_power_mono)
qed

text \<open>
  The scenario's generator at velocities 1 and 2: 0.025 W and 0.1 W, whatever the
  displacement.
\<close>

theorem C3_calculate_power_witness:
  "resistance (VibrationGenerator_init 25 10000 100 (4 / 10)) \<noteq> 0
   \<and> 0 < resistance (VibrationGenerator_init 25 10000 100 (4 / 10))
   \<and> 0 \<le> efficiency (VibrationGenerator_init 25 10000 100 (4 / 10))
   \<and> \<bar>1 :: real\<bar> \<le> \<bar>2\<bar>
   \<and> returned (calculate_power (VibrationGenerator_init 25 10000 100 (4 / 10)) 0 1)
       = Some (1 / 40)
   \<and> returned (calculate_power (VibrationGenerator_init 25 10000 100 (4 / 10)) 7 2)
       = Some (1 / 10)
   \<and> calculate_power (VibrationGenerator_init 25 10000 100 (4 / 10)) 0 1
       = calculate_power (VibrationGenerator_init 25 10000 100 (4 / 10)) 7 1"
  using C3_calculate_power [where g = "VibrationGenerator_init 25 10000 100 (4 / 10)"
      and d = 0 and v = 1 and d' = 7 and v' = 2]
  by (simp add: VibrationGenerator_init_def calculate_power_def Let_def power2_eq_square)

text \<open>
  C9. \<^verbatim>\<open>calculateEnergyThisCycle(dt)\<close> returns \<open>powerOutput * dt\<close>, never raises and
  leaves the generator as it was; after a \<^verbatim>\<open>calculatePower\<close> call that returned \<open>p\<close> it
  returns \<open>p * dt\<close> (whatever happened before that call), and on a freshly constructed
  generator it returns 0.
\<close>

theorem C9_energy_this_cycle:
  "calculate_energy_this_cycle g dt = Returns (power_output g * dt) g
   \<and> raised (calculate_energy_this_cycle g dt) = None
   \<and> self_after (calculate_energy_this_cycle g dt) = g
   \<and> (calculate_power g d v = Returns p g' \<longrightarrow>
        calculate_energy_this_cycle g' dt = Returns (p * dt) g')
   \<and> calculate_energy_this_cycle (VibrationGenerator_init pc r mv eff) dt =
        Returns 0 (VibrationGenerator_init pc r mv eff)"
  by (auto simp: calculate_energy_this_cycle_def calculate_power_def Let_def
      VibrationGenerator_init_def split: if_splits)

text \<open>
  The scenario's generator: \<^verbatim>\<open>calculatePower\<close> at velocity 2 stores 0.1 W, and the energy
  of a step of 1/60 s is then 1/600 J.
\<close>

theorem C9_energy_this_cycle_witness:
  "calculate_power (VibrationGenerator_init 25 10000 100 (4 / 10)) 0 2 =
     Returns (1 / 10) ((VibrationGenerator_init 25 10000 100 (4 / 10))\<lparr>power_output := 1 / 10\<rparr>)
   \<and> calculate_energy_this_cycle
        ((VibrationGenerator_init 25 10000 100 (4 / 10))\<lparr>power_output := 1 / 10\<rparr>) (1 / 60)
      = Returns (1 / 600) ((VibrationGenerator_init 25 10000 100 (4 / 10))\<lparr>power_output := 1 / 10\<rparr>)"
proof -
  have h: "calculate_power (VibrationGenerator_init 25 10000 100 (4 / 10)) 0 2 =
     Returns (1 / 10) ((VibrationGenerator_init 25 10000 100 (4 / 10))\<lparr>power_output := 1 / 10\<rparr>)"
    by (simp add: calculate_power_def VibrationGenerator_init_def Let_def power2_eq_square)
  show ?thesis
    using h C9_energy_this_cycle [where dt = "1 / 60"
        and g = "VibrationGenerator_init 25 10000 100 (4 / 10)" and d = 0 and v = 2
        and p = "1 / 10"
        and g' = "(VibrationGenerator_init 25 10000 100 (4 / 10))\<lparr>power_output := 1 / 10\<rparr>"]
    by simp
qed

section \<open>Properties of the mechanical model\<close>

lemma failed_update:
  "failed pm \<Longrightarrow>
     failed (PhysicsModel_update pm wind dt es ode)
     \<and> displacement (PhysicsModel_update pm wind dt es ode) = 0
     \<and> velocity (PhysicsModel_update pm wind dt es ode) = 0
     \<and> time (PhysicsModel_update pm wind dt es ode) = time pm"
  by (simp add: PhysicsModel_update_def)

lemma failed_update_call:
  "failed pm \<Longrightarrow>
     failed (PhysicsModel_update_call pm c)
     \<and> displacement (PhysicsModel_update_call pm c) = 0
     \<and> velocity (PhysicsModel_update_call pm c) = 0"
  by (cases c) (simp add: failed_update)

lemma failed_updates:
  "failed pm \<Longrightarrow> failed (PhysicsModel_updates pm calls)"
  unfolding PhysicsModel_updates_def
  by (induction calls arbitrary: pm) (simp_all add: failed_update_call)

lemma failed_updates_at_rest:
  assumes "failed pm" and "calls \<noteq> []"
  shows "displacement (PhysicsModel_updates pm calls) = 0
     \<and> velocity (PhysicsModel_updates pm calls) = 0"
proof -
  obtain cs c where calls: "calls = cs @ [c]"
    using assms(2) by (cases calls rule: rev_cases) simp_all
  have "failed (PhysicsModel_updates pm cs)"
    using assms(1) by (rule failed_updates)
  then show ?thesis
    using failed_update_call [of "PhysicsModel_updates pm cs" c]
    by (simp add: calls PhysicsModel_updates_def)
qed

lemma active_update_time:
  "\<not> failed pm \<Longrightarrow> time (PhysicsModel_update pm wind dt es ode) = time pm + dt"
  by (simp add: PhysicsModel_update_def Let_def split: option.splits)

lemma active_update_c_elec:
  "\<not> failed pm \<Longrightarrow>
     c_elec (PhysicsModel_update pm wind dt (Some es) ode) =
       max_c_elec pm * (1 - state_of_charge es / 100) + 1 / 2"
  by (simp add: PhysicsModel_update_def Let_def)

lemma update_max_displacement:
  "max_displacement (PhysicsModel_update pm wind dt es ode) = max_displacement pm"
  by (simp add: PhysicsModel_update_def Let_def split: option.splits)

lemma reachable_max_displacement:
  "reachable pm \<Longrightarrow> max_displacement pm = 1 / 100"
  by (induction rule: reachable.induct)
     (simp_all add: PhysicsModel_init_def update_max_displacement update_power_metrics_def Let_def)

lemma active_update_no_wind:
  "\<not> failed pm \<Longrightarrow> 0 \<le> max_displacement pm \<Longrightarrow> wind \<le> 0 \<Longrightarrow>
     displacement (PhysicsModel_update pm wind dt es ode) = 0
     \<and> velocity (PhysicsModel_update pm wind dt es ode) = 0
     \<and> state (PhysicsModel_update pm wind dt es ode) = (0, 0)
     \<and> \<not> failed (PhysicsModel_update pm wind dt es ode)"
  by (simp add: PhysicsModel_update_def Let_def split: option.splits)

lemma init_fields:
  "failed (PhysicsModel_init ma da st ar me) = False"
  "time (PhysicsModel_init ma da st ar me) = 0"
  "max_c_elec (PhysicsModel_init ma da st ar me) = me"
  "max_displacement (PhysicsModel_init ma da st ar me) = 1 / 100"
  "m (PhysicsModel_init ma da st ar me) = ma"
  "k (PhysicsModel_init ma da st ar me) = st"
  "power_history (PhysicsModel_init ma da st ar me) = deque_init 200"
  "avg_power_window (PhysicsModel_init ma da st ar me) = deque_init 300"
  "average_power (PhysicsModel_init ma da st ar me) = 0"
  by (simp_all add: PhysicsModel_init_def Let_def)

lemma windy_update_fields:
  "\<not> failed pm \<Longrightarrow> 0 < wind \<Longrightarrow>
     displacement (PhysicsModel_update pm wind dt es (constant_integrator (y, v))) = y
     \<and> velocity (PhysicsModel_update pm wind dt es (constant_integrator (y, v))) = v
     \<and> failed (PhysicsModel_update pm wind dt es (constant_integrator (y, v)))
         = (\<bar>y\<bar> > max_displacement pm)"
  by (simp add: PhysicsModel_update_def Let_def constant_integrator_def split: option.splits)

text \<open>
  C1. In every state with \<open>failed = true\<close>, every call of \<^verbatim>\<open>update\<close>, whatever the wind
  speed, \<open>dt\<close> and energy store, leaves \<open>failed = true\<close> and sets \<open>displacement = 0\<close> and
  \<open>velocity = 0\<close>; the same holds after every sequence of calls, so \<open>failed\<close> never goes
  back to false.
\<close>

theorem C1_failed_is_terminal:
  "failed pm \<Longrightarrow>
     failed (PhysicsModel_update pm wind dt energy_storage odeint)
     \<and> displacement (PhysicsModel_update pm wind dt energy_storage odeint) = 0
     \<and> velocity (PhysicsModel_update pm wind dt energy_storage odeint) = 0
     \<and> failed (PhysicsModel_updates pm calls)
     \<and> (calls \<noteq> [] \<longrightarrow> displacement (PhysicsModel_updates pm calls) = 0
                        \<and> velocity (PhysicsModel_updates pm calls) = 0)"
  by (simp add: failed_update failed_updates failed_updates_at_rest)

text \<open>
  The default model fails in a step whose integration ends at a displacement of 20 mm;
  a further call at wind speed 30, with an integrator that would end at 50 mm and 3 m/s,
  leaves it failed and at rest.
\<close>

theorem C1_failed_is_terminal_witness:
  "failed (PhysicsModel_update (PhysicsModel_init 10 10 100000 (1 / 2) 5) 30 (1 / 60) None
      (constant_integrator (1 / 50, 0)))
   \<and> failed (PhysicsModel_update
        (PhysicsModel_update (PhysicsModel_init 10 10 100000 (1 / 2) 5) 30 (1 / 60) None
          (constant_integrator (1 / 50, 0)))
        30 (1 / 60) None (constant_integrator (1 / 20, 3)))
   \<and> displacement (PhysicsModel_update
        (PhysicsModel_update (PhysicsModel_init 10 10 100000 (1 / 2) 5) 30 (1 / 60) None
          (constant_integrator (1 / 50, 0)))
        30 (1 / 60) None (constant_integrator (1 / 20, 3))) = 0
   \<and> velocity (PhysicsModel_update
        (PhysicsModel_update (PhysicsModel_init 10 10 100000 (1 / 2) 5) 30 (1 / 60) None
          (constant_integrator (1 / 50, 0)))
        30 (1 / 60) None (constant_integrator (1 / 20, 3))) = 0
   \<and> [(30, 1 / 60, None, constant_integrator (1 / 20, 3)),
       (0, 1 / 60, None, constant_integrator (0, 0))] \<noteq> []
   \<and> failed (PhysicsModel_updates
        (PhysicsModel_update (PhysicsModel_init 10 10 100000 (1 / 2) 5) 30 (1 / 60) None
          (constant_integrator (1 / 50, 0)))
        [(30, 1 / 60, None, constant_integrator (1 / 20, 3)),
         (0, 1 / 60, None, constant_integrator (0, 0))])
   \<and> displacement (PhysicsModel_updates
        (PhysicsModel_update (PhysicsModel_init 10 10 100000 (1 / 2) 5) 30 (1 / 60) None
          (constant_integrator (1 / 50, 0)))
        [(30, 1 / 60, None, constant_integrator (1 / 20, 3)),
         (0, 1 / 60, None, constant_integrator (0, 0))]) = 0"
proof -
  have f: "failed (PhysicsModel_update (PhysicsModel_init 10 10 100000 (1 / 2) 5) 30 (1 / 60) None
      (constant_integrator (1 / 50, 0)))"
    by (simp add: windy_update_fields init_fields)
  from C1_failed_is_terminal [OF f, where wind = 30 and dt = "1 / 60" and energy_storage = None
      and odeint = "constant_integrator (1 / 20, 3)"
      and calls = "[(30, 1 / 60, None, constant_integrator (1 / 20, 3)),
         (0, 1 / 60, None, constant_integrator (0, 0))]"] f
  show ?thesis by simp
qed

text \<open>
  C5, as stated, fails: a failed model returns from \<^verbatim>\<open>update\<close> before the clock is
  advanced. The failed model above, called with \<open>dt = 1\<close>, keeps its time.
\<close>

theorem C5_failed_clock_counterexample:
  "failed (PhysicsModel_update (PhysicsModel_init 10 10 100000 (1 / 2) 5) 30 (1 / 60) None
      (constant_integrator (1 / 50, 0)))
   \<and> time (PhysicsModel_update
        (PhysicsModel_update (PhysicsModel_init 10 10 100000 (1 / 2) 5) 30 (1 / 60) None
          (constant_integrator (1 / 50, 0)))
        30 1 None (constant_integrator (1 / 50, 0)))
     \<noteq> time (PhysicsModel_update (PhysicsModel_init 10 10 100000 (1 / 2) 5) 30 (1 / 60) None
          (constant_integrator (1 / 50, 0))) + 1"
proof -
  have f: "failed (PhysicsModel_update (PhysicsModel_init 10 10 100000 (1 / 2) 5) 30 (1 / 60) None
      (constant_integrator (1 / 50, 0)))"
    by (simp add: windy_update_fields init_fields)
  then show ?thesis by (simp add: failed_update)
qed

text \<open>
  C5, amended. In every state with \<open>failed = false\<close>, every call
  \<^verbatim>\<open>update(windSpeed, dt, stateOfCharge)\<close> increases \<open>time\<close> by exactly \<open>dt\<close>; in a state
  with \<open>failed = true\<close> the call leaves \<open>time\<close> unchanged (the state and the clock are
  both frozen).
\<close>

theorem C5_clock_advances_unless_failed:
  "(\<not> failed pm \<longrightarrow>
      time (PhysicsModel_update pm wind dt energy_storage odeint) = time pm + dt)
   \<and> (failed pm \<longrightarrow>
      time (PhysicsModel_update pm wind dt energy_storage odeint) = time pm)"
  by (simp add: active_update_time failed_update)

text \<open>
  The first call on a new model moves the clock from 0 to 1/60; it fails in that call,
  and the second call, with \<open>dt = 1\<close>, leaves the clock at 1/60.
\<close>

theorem C5_clock_advances_unless_failed_witness:
  "\<not> failed (PhysicsModel_init 10 10 100000 (1 / 2) 5)
   \<and> time (PhysicsModel_update (PhysicsModel_init 10 10 100000 (1 / 2) 5) 30 (1 / 60) None
        (constant_integrator (1 / 50, 0))) = 1 / 60
   \<and> failed (PhysicsModel_update (PhysicsModel_init 10 10 100000 (1 / 2) 5) 30 (1 / 60) None
        (constant_integrator (1 / 50, 0)))
   \<and> time (PhysicsModel_update
        (PhysicsModel_update (PhysicsModel_init 10 10 100000 (1 / 2) 5) 30 (1 / 60) None
          (constant_integrator (1 / 50, 0)))
        30 1 None (constant_integrator (1 / 50, 0))) = 1 / 60"
proof -
  have a: "\<not> failed (PhysicsModel_init 10 10 100000 (1 / 2) 5)"
    by (simp add: init_fields)
  have f: "failed (PhysicsModel_update (PhysicsModel_init 10 10 100000 (1 / 2) 5) 30 (1 / 60) None
      (constant_integrator (1 / 50, 0)))"
    by (simp add: windy_update_fields init_fields)
  show ?thesis
    using a f
      C5_clock_advances_unless_failed [where pm = "PhysicsModel_init 10 10 100000 (1 / 2) 5"
        and wind = 30 and dt = "1 / 60" and energy_storage = None
        and odeint = "constant_integrator (1 / 50, 0)"]
      C5_clock_advances_unless_failed [where
        pm = "PhysicsModel_update (PhysicsModel_init 10 10 100000 (1 / 2) 5) 30 (1 / 60) None
          (constant_integrator (1 / 50, 0))"
        and wind = 30 and dt = 1 and energy_storage = None
        and odeint = "constant_integrator (1 / 50, 0)"]
    by (simp add: init_fields)
qed

text \<open>
  C4. In every state with \<open>failed = false\<close> and for every energy store supplied to
  \<^verbatim>\<open>update\<close>, with state of charge \<open>s\<close> (in \<open>[0, 100]\<close> or not), the electrical damping
  is set to \<open>maxElectricalDamping * (1 - s / 100) + 0.5\<close>: it is
  \<open>maxElectricalDamping + 0.5\<close> at \<open>s = 0\<close> and \<open>0.5\<close> at \<open>s = 100\<close>, and it is
  monotonically non-increasing in \<open>s\<close>. The monotonicity is stated on the domain the
  construction inputs have, \<open>maxElectricalDamping \<ge> 0\<close>.
\<close>

theorem C4_electrical_damping:
  "\<not> failed pm \<Longrightarrow>
     c_elec (PhysicsModel_update pm wind dt (Some es) odeint) =
       max_c_elec pm * (1 - state_of_charge es / 100) + 1 / 2
     \<and> (state_of_charge es = 0 \<longrightarrow>
          c_elec (PhysicsModel_update pm wind dt (Some es) odeint) = max_c_elec pm + 1 / 2)
     \<and> (state_of_charge es = 100 \<longrightarrow>
          c_elec (PhysicsModel_update pm wind dt (Some es) odeint) = 1 / 2)
     \<and> (0 \<le> max_c_elec pm \<and> state_of_charge es \<le> state_of_charge es' \<longrightarrow>
          c_elec (PhysicsModel_update pm wind dt (Some es') odeint)
          \<le> c_elec (PhysicsModel_update pm wind dt (Some es) odeint))"
  by (simp add: active_update_c_elec mult_left_mono)

text \<open>
  The default model (\<open>maxElectricalDamping = 5\<close>) gets a damping of 5.5 from an empty
  store and of 0.5 from a full one.
\<close>

theorem C4_electrical_damping_witness:
  "\<not> failed (PhysicsModel_init 10 10 100000 (1 / 2) 5)
   \<and> 0 \<le> max_c_elec (PhysicsModel_init 10 10 100000 (1 / 2) 5)
   \<and> state_of_charge (EnergyStorage_init 50000 5) = 0
   \<and> state_of_charge (self_after (EnergyStorage_update (EnergyStorage_init 50000 5) 1 60000)) = 100
   \<and> c_elec (PhysicsModel_update (PhysicsModel_init 10 10 100000 (1 / 2) 5) 10 (1 / 60)
        (Some (EnergyStorage_init 50000 5)) (constant_integrator (0, 0))) = 11 / 2
   \<and> c_elec (PhysicsModel_update (PhysicsModel_init 10 10 100000 (1 / 2) 5) 10 (1 / 60)
        (Some (self_after (EnergyStorage_update (EnergyStorage_init 50000 5) 1 60000)))
        (constant_integrator (0, 0))) = 1 / 2"
proof -
  have a: "\<not> failed (PhysicsModel_init 10 10 100000 (1 / 2) 5)"
    by (simp add: init_fields)
  have s: "state_of_charge (EnergyStorage_init 50000 5) = 0"
    "state_of_charge (self_after (EnergyStorage_update (EnergyStorage_init 50000 5) 1 60000)) = 100"
    by (simp_all add: EnergyStorage_update_soc EnergyStorage_update_stored EnergyStorage_init_def)
  show ?thesis
    using a s
      C4_electrical_damping [OF a, where es = "EnergyStorage_init 50000 5" and wind = 10
        and dt = "1 / 60" and odeint = "constant_integrator (0, 0)"
        and es' = "self_after (EnergyStorage_update (EnergyStorage_init 50000 5) 1 60000)"]
      C4_electrical_damping [OF a,
        where es = "self_after (EnergyStorage_update (EnergyStorage_init 50000 5) 1 60000)"
        and wind = 10 and dt = "1 / 60" and odeint = "constant_integrator (0, 0)"
        and es' = "self_after (EnergyStorage_update (EnergyStorage_init 50000 5) 1 60000)"]
    by (simp add: init_fields)
qed

text \<open>
  C8. In every reachable state with \<open>failed = false\<close>, for every \<open>dt \<ge> 0\<close>, energy store
  and integrator, one call \<^verbatim>\<open>update(0, dt, charge)\<close> leaves \<open>displacement = 0\<close>,
  \<open>velocity = 0\<close> and the state vector \<open>(0, 0)\<close> (the integrator is not used), increases
  \<open>time\<close> by exactly \<open>dt\<close>, and leaves \<open>failed = false\<close>.
\<close>

theorem C8_no_wind_resets_state:
  assumes "reachable pm" and "\<not> failed pm" and "0 \<le> dt"
  shows "displacement (PhysicsModel_update pm 0 dt energy_storage odeint) = 0
     \<and> velocity (PhysicsModel_update pm 0 dt energy_storage odeint) = 0
     \<and> state (PhysicsModel_update pm 0 dt energy_storage odeint) = (0, 0)
     \<and> time (PhysicsModel_update pm 0 dt energy_storage odeint) = time pm + dt
     \<and> \<not> failed (PhysicsModel_update pm 0 dt energy_storage odeint)"
proof -
  have "0 \<le> max_displacement pm"
    using assms(1) by (simp add: reachable_max_displacement)
  with assms(2) show ?thesis
    by (simp add: active_update_no_wind active_update_time)
qed

text \<open>
  The default model (mass 10, damping 10, stiffness 100000, area 0.5) after a step in
  wind that left it at 1 mm and 0.1 m/s: a step without wind puts it back at rest, and
  the clock goes from 1/60 to 1/30.
\<close>

theorem C8_no_wind_resets_state_witness:
  "reachable (PhysicsModel_update (PhysicsModel_init 10 10 100000 (1 / 2) 5) 10 (1 / 60)
      (Some (EnergyStorage_init 50000 5)) (constant_integrator (1 / 1000, 1 / 10)))
   \<and> \<not> failed (PhysicsModel_update (PhysicsModel_init 10 10 100000 (1 / 2) 5) 10 (1 / 60)
      (Some (EnergyStorage_init 50000 5)) (constant_integrator (1 / 1000, 1 / 10)))
   \<and> (0 :: real) \<le> 1 / 60
   \<and> velocity (PhysicsModel_update (PhysicsModel_init 10 10 100000 (1 / 2) 5) 10 (1 / 60)
      (Some (EnergyStorage_init 50000 5)) (constant_integrator (1 / 1000, 1 / 10))) = 1 / 10
   \<and> velocity (PhysicsModel_update
        (PhysicsModel_update (PhysicsModel_init 10 10 100000 (1 / 2) 5) 10 (1 / 60)
          (Some (EnergyStorage_init 50000 5)) (constant_integrator (1 / 1000, 1 / 10)))
        0 (1 / 60) (Some (EnergyStorage_init 50000 5)) (constant_integrator (1 / 1000, 1 / 10))) = 0
   \<and> displacement (PhysicsModel_update
        (PhysicsModel_update (PhysicsModel_init 10 10 100000 (1 / 2) 5) 10 (1 / 60)
          (Some (EnergyStorage_init 50000 5)) (constant_integrator (1 / 1000, 1 / 10)))
        0 (1 / 60) (Some (EnergyStorage_init 50000 5)) (constant_integrator (1 / 1000, 1 / 10))) = 0
   \<and> time (PhysicsModel_update
        (PhysicsModel_update (PhysicsModel_init 10 10 100000 (1 / 2) 5) 10 (1 / 60)
          (Some (EnergyStorage_init 50000 5)) (constant_integrator (1 / 1000, 1 / 10)))
        0 (1 / 60) (Some (EnergyStorage_init 50000 5)) (constant_integrator (1 / 1000, 1 / 10))) = 1 / 30
   \<and> \<not> failed (PhysicsModel_update
        (PhysicsModel_update (PhysicsModel_init 10 10 100000 (1 / 2) 5) 10 (1 / 60)
          (Some (EnergyStorage_init 50000 5)) (constant_integrator (1 / 1000, 1 / 10)))
        0 (1 / 60) (Some (EnergyStorage_init 50000 5)) (constant_integrator (1 / 1000, 1 / 10)))"
proof -
  let ?pm = "PhysicsModel_update (PhysicsModel_init 10 10 100000 (1 / 2) 5) 10 (1 / 60)
      (Some (EnergyStorage_init 50000 5)) (constant_integrator (1 / 1000, 1 / 10))"
  have r: "reachable ?pm"
    by (intro reachable_update reachable_init)
  have a: "\<not> failed ?pm" and v: "velocity ?pm = 1 / 10"
    by (simp_all add: windy_update_fields init_fields)
  have t: "time ?pm = 1 / 60"
    by (simp add: active_update_time init_fields)
  have d: "(0 :: real) \<le> 1 / 60" by simp
  show ?thesis
    using r a v d t
      C8_no_wind_resets_state [OF r a d, where energy_storage = "Some (EnergyStorage_init 50000 5)"
        and odeint = "constant_integrator (1 / 1000, 1 / 10)"]
    by simp
qed

section \<open>The bounded power buffers\<close>















section \<open>Construction\<close>

text \<open>
  C7, as stated, fails: the constructors check nothing. A store constructed with
  capacity 0 exists, and its \<^verbatim>\<open>update\<close> raises \<^verbatim>\<open>ZeroDivisionError\<close>; a generator
  constructed with load resistance 0 exists, and its \<^verbatim>\<open>calculate_power\<close>, called with
  the Python floats 0.0 and 0.0, raises \<^verbatim>\<open>ZeroDivisionError\<close>; a negative capacity is
  kept as it is.
\<close>

theorem C7_zero_capacity_counterexample:
  "capacity (EnergyStorage_init 0 5) = 0
   \<and> raised (EnergyStorage_update (EnergyStorage_init 0 5) 1 0) = Some ZeroDivisionError
   \<and> resistance (VibrationGenerator_init 15 0 100 (4 / 10)) = 0
   \<and> raised (calculate_power (VibrationGenerator_init 15 0 100 (4 / 10)) 0 0)
       = Some ZeroDivisionError
   \<and> capacity (EnergyStorage_init (- 1) 5) = - 1"
  by (simp add: EnergyStorage_update_raised calculate_power_raised EnergyStorage_init_def
      VibrationGenerator_init_def)

lemma calculate_power_float64_nonzero:
  "resistance g \<noteq> 0 \<Longrightarrow> calculate_power_float64 g d v = Within (calculate_power g d v)"
  by (simp add: calculate_power_float64_def calculate_power_def Let_def min_def)

lemma calculate_power_float64_zero:
  "resistance g = 0 \<Longrightarrow>
   calculate_power_float64 g d v =
     (if max_voltage g < piezo_const g * \<bar>v\<bar> then Within (Raises ZeroDivisionError g)
      else if piezo_const g * \<bar>v\<bar> = 0 then Nan_stored
      else Within (Returns (10 * efficiency g) (g\<lparr>power_output := 10 * efficiency g\<rparr>)))"
  by (simp add: calculate_power_float64_def Let_def)

text \<open>
  C7, amended. The three constructors store mass, stiffness, load resistance and
  capacity exactly as given, zero and negative values included. Division by zero is then
  excluded by the values alone. \<^verbatim>\<open>EnergyStore.update\<close> raises exactly when
  \<open>capacity = 0\<close>. \<^verbatim>\<open>calculatePower\<close>, called with Python floats, raises exactly when
  \<open>loadResistance = 0\<close>; called with a \<^verbatim>\<open>numpy.float64\<close> velocity it behaves the same for
  \<open>loadResistance \<noteq> 0\<close>, while for \<open>loadResistance = 0\<close> it raises only when the voltage
  is clipped to \<open>maxVoltage\<close>, and otherwise raises nothing and returns
  \<open>10 * efficiency\<close>, or NaN when the voltage is 0. With a mass or stiffness that is not
  positive the damping ratio and the resonant frequency are 0.
\<close>

theorem C7_constructors_store_as_given:
  "resistance (VibrationGenerator_init pc r mv eff) = r
   \<and> capacity (EnergyStorage_init cap rate) = cap
   \<and> m (PhysicsModel_init ma da st ar me) = ma
   \<and> k (PhysicsModel_init ma da st ar me) = st
   \<and> raised (EnergyStorage_update es dt j) = (if capacity es = 0 then Some ZeroDivisionError else None)
   \<and> raised (calculate_power g d v) = (if resistance g = 0 then Some ZeroDivisionError else None)
   \<and> (resistance g \<noteq> 0 \<longrightarrow> calculate_power_float64 g d v = Within (calculate_power g d v))
   \<and> (resistance g = 0 \<longrightarrow>
        calculate_power_float64 g d v =
          (if max_voltage g < piezo_const g * \<bar>v\<bar> then Within (Raises ZeroDivisionError g)
           else if piezo_const g * \<bar>v\<bar> = 0 then Nan_stored
           else Within (Returns (10 * efficiency g) (g\<lparr>power_output := 10 * efficiency g\<rparr>))))
   \<and> (ma \<le> 0 \<or> st \<le> 0 \<longrightarrow>
        damping_ratio (PhysicsModel_init ma da st ar me) = 0
        \<and> resonant_frequency (PhysicsModel_init ma da st ar me) = 0)"
proof -
  have fields: "resistance (VibrationGenerator_init pc r mv eff) = r"
    "capacity (EnergyStorage_init cap rate) = cap"
    by (simp_all add: VibrationGenerator_init_def EnergyStorage_init_def)
  have guarded: "ma \<le> 0 \<or> st \<le> 0 \<longrightarrow>
        damping_ratio (PhysicsModel_init ma da st ar me) = 0
        \<and> resonant_frequency (PhysicsModel_init ma da st ar me) = 0"
    by (auto simp: PhysicsModel_init_def Let_def calculate_damping_ratio_def
        calculate_resonant_frequency_def)
  have zero: "resistance g = 0 \<longrightarrow>
        calculate_power_float64 g d v =
          (if max_voltage g < piezo_const g * \<bar>v\<bar> then Within (Raises ZeroDivisionError g)
           else if piezo_const g * \<bar>v\<bar> = 0 then Nan_stored
           else Within (Returns (10 * efficiency g) (g\<lparr>power_output := 10 * efficiency g\<rparr>)))"
    using calculate_power_float64_zero [of g d v] by blast
  have nonzero: "resistance g \<noteq> 0 \<longrightarrow>
        calculate_power_float64 g d v = Within (calculate_power g d v)"
    using calculate_power_float64_nonzero [of g d v] by blast
  from fields guarded zero nonzero show ?thesis
    by (simp only: EnergyStorage_update_raised calculate_power_raised init_fields simp_thms)
qed

text \<open>
  The default generator and store raise nothing. A store of capacity 0 raises in
  \<^verbatim>\<open>update\<close>. A generator of resistance 0 raises for the Python float 0.1; for the
  \<^verbatim>\<open>numpy.float64\<close> 0.1 it returns 4, for 10 (clipped to 100 V) it raises, and for 0 it
  stores NaN. A model of mass 0 is constructed with damping ratio 0.
\<close>

theorem C7_constructors_store_as_given_witness:
  "raised (calculate_power (VibrationGenerator_init 15 100 100 (4 / 10)) 0 1) = None
   \<and> raised (EnergyStorage_update (EnergyStorage_init 50000 5) 1 0) = None
   \<and> raised (EnergyStorage_update (EnergyStorage_init 0 5) 1 0) = Some ZeroDivisionError
   \<and> resistance (VibrationGenerator_init 15 100 100 (4 / 10)) \<noteq> 0
   \<and> calculate_power_float64 (VibrationGenerator_init 15 100 100 (4 / 10)) 0 1
       = Within (calculate_power (VibrationGenerator_init 15 100 100 (4 / 10)) 0 1)
   \<and> resistance (VibrationGenerator_init 15 0 100 (4 / 10)) = 0
   \<and> raised (calculate_power (VibrationGenerator_init 15 0 100 (4 / 10)) 0 (1 / 10))
       = Some ZeroDivisionError
   \<and> calculate_power_float64 (VibrationGenerator_init 15 0 100 (4 / 10)) 0 (1 / 10)
       = Within (Returns 4 ((VibrationGenerator_init 15 0 100 (4 / 10))\<lparr>power_output := 4\<rparr>))
   \<and> calculate_power_float64 (VibrationGenerator_init 15 0 100 (4 / 10)) 0 10
       = Within (Raises ZeroDivisionError (VibrationGenerator_init 15 0 100 (4 / 10)))
   \<and> calculate_power_float64 (VibrationGenerator_init 15 0 100 (4 / 10)) 0 0 = Nan_stored
   \<and> ((0 :: real) \<le> 0 \<or> (100000 :: real) \<le> 0)
   \<and> m (PhysicsModel_init 0 10 100000 (1 / 2) 5) = 0
   \<and> damping_ratio (PhysicsModel_init 0 10 100000 (1 / 2) 5) = 0"
  using C7_constructors_store_as_given [where g = "VibrationGenerator_init 15 100 100 (4 / 10)"
      and d = 0 and v = 1 and es = "EnergyStorage_init 50000 5" and dt = 1 and j = 0
      and ma = 0 and da = 10 and st = 100000 and ar = "1 / 2" and me = 5
      and pc = 15 and r = 100 and mv = 100 and eff = "4 / 10" and cap = 50000 and rate = 5]
    C7_constructors_store_as_given [where g = "VibrationGenerator_init 15 0 100 (4 / 10)"
      and d = 0 and v = "1 / 10" and es = "EnergyStorage_init 0 5" and dt = 1 and j = 0
      and ma = 0 and da = 10 and st = 100000 and ar = "1 / 2" and me = 5
      and pc = 15 and r = 0 and mv = 100 and eff = "4 / 10" and cap = 0 and rate = 5]
    C7_constructors_store_as_given [where g = "VibrationGenerator_init 15 0 100 (4 / 10)"
      and d = 0 and v = 10 and es = "EnergyStorage_init 0 5" and dt = 1 and j = 0
      and ma = 0 and da = 10 and st = 100000 and ar = "1 / 2" and me = 5
      and pc = 15 and r = 0 and mv = 100 and eff = "4 / 10" and cap = 0 and rate = 5]
    C7_constructors_store_as_given [where g = "VibrationGenerator_init 15 0 100 (4 / 10)"
      and d = 0 and v = 0 and es = "EnergyStorage_init 0 5" and dt = 1 and j = 0
      and ma = 0 and da = 10 and st = 100000 and ar = "1 / 2" and me = 5
      and pc = 15 and r = 0 and mv = 100 and eff = "4 / 10" and cap = 0 and rate = 5]
  by (simp add: EnergyStorage_init_def VibrationGenerator_init_def)

end
